theory Spec2Isabelle
  imports Main "HOL-Library.Word"
begin

section \<open>Addresses and their text form\<close>

text \<open>
  Both programs (\<^verbatim>\<open>src/unnamed/part_000\<close>, the firewall variant, and
  \<^verbatim>\<open>src/cmd/kube-nginx/main.go\<close>, the load-balancer variant) handle node
  addresses as Go's \<^verbatim>\<open>net.IP\<close>, a byte slice. The nil address is the slice of
  length 0.

  \<^verbatim>\<open>net.IP.String\<close> belongs to Go's standard library, not to the repository. Its
  documented behaviour on an address of length 0 is to return \<^verbatim>\<open><nil>\<close>; how it
  prints every other address is taken as the parameter \<open>str\<close> of all definitions below.
\<close>

type_synonym ip = "8 word list"

definition IP_String :: "(ip \<Rightarrow> string) \<Rightarrow> ip \<Rightarrow> string" where
  "IP_String str a = (if length a = 0 then ''<nil>'' else str a)"

subsection \<open>Decimal output\<close>

text \<open>
  \<^verbatim>\<open>%d\<close> of \<^verbatim>\<open>fmt.Sprintf\<close> on an \<^verbatim>\<open>int\<close>: the decimal digits, with a
  leading minus sign for a negative number.
\<close>

definition digit :: "nat \<Rightarrow> char" where
  "digit n = ''0123456789'' ! (n mod 10)"

function decimal :: "nat \<Rightarrow> string" where
  "decimal n = (if n < 10 then [digit n] else decimal (n div 10) @ [digit n])"
  by pat_completeness auto
termination
  by (relation "measure (\<lambda>n. n)") auto

definition fmt_d :: "int \<Rightarrow> string" where
  "fmt_d i = (if i < 0 then ''-'' @ decimal (nat (- i)) else decimal (nat i))"

text \<open>
  A concrete printer for the examples: a four-byte address in dotted decimal, which is how
  Go prints an IPv4 address. It is used only to instantiate \<open>str\<close> at concrete inputs.
\<close>

fun dotted :: "ip \<Rightarrow> string" where
  "dotted [a, b, c, d] =
     decimal (unat a) @ ''.'' @ decimal (unat b) @ ''.'' @ decimal (unat c) @ ''.'' @ decimal (unat d)"
| "dotted bs = ''?''"

section \<open>The differ: \<^verbatim>\<open>isDiff\<close>\<close>

text \<open>
  \<^verbatim>\<open>isDiff(oldHosts, newHosts)\<close> is the same function in both programs. After the
  length test, the outer loop ranges over \<^verbatim>\<open>oldHosts\<close> and the inner loop over
  \<^verbatim>\<open>newHosts\<close>; the inner loop adds one to \<^verbatim>\<open>matches\<close> at the first entry
  with the same text form and breaks.
\<close>

fun isDiff_inner :: "(ip \<Rightarrow> string) \<Rightarrow> ip \<Rightarrow> ip list \<Rightarrow> nat \<Rightarrow> nat" where
  "isDiff_inner str v [] matches = matches"
| "isDiff_inner str v (k # ks) matches =
     (if IP_String str v = IP_String str k then matches + 1
      else isDiff_inner str v ks matches)"

fun isDiff_outer :: "(ip \<Rightarrow> string) \<Rightarrow> ip list \<Rightarrow> ip list \<Rightarrow> nat \<Rightarrow> nat" where
  "isDiff_outer str [] newHosts matches = matches"
| "isDiff_outer str (v # vs) newHosts matches =
     isDiff_outer str vs newHosts (isDiff_inner str v newHosts matches)"

definition isDiff :: "(ip \<Rightarrow> string) \<Rightarrow> ip list \<Rightarrow> ip list \<Rightarrow> bool" where
  "isDiff str oldHosts newHosts =
     (if length newHosts \<noteq> length oldHosts then True
      else if isDiff_outer str oldHosts newHosts 0 \<noteq> length newHosts then True
      else False)"

section \<open>The file system and the line scanner\<close>

text \<open>
  The artifact files live in a file system: the bytes of each existing regular file, and
  whether opening a path for reading, or for writing (creating it when absent), succeeds.
  A path that cannot be opened stands for every failure of \<^verbatim>\<open>os.Open\<close>,
  \<^verbatim>\<open>os.Create\<close> and \<^verbatim>\<open>os.OpenFile\<close> (permission denied, a missing directory).
\<close>

record fsys =
  files :: "string \<rightharpoonup> string"
  can_read :: "string \<Rightarrow> bool"
  can_write :: "string \<Rightarrow> bool"

text \<open>An open \<^verbatim>\<open>*os.File\<close>: the path it was opened on and its current offset.\<close>

record os_File =
  fname :: string
  offset :: nat

definition os_Open :: "fsys \<Rightarrow> string \<Rightarrow> string option" where
  "os_Open fs name =
     (case files fs name of
        None \<Rightarrow> None
      | Some bytes \<Rightarrow> if can_read fs name then Some bytes else None)"

text \<open>\<^verbatim>\<open>os.Create\<close> opens with \<^verbatim>\<open>O_RDWR|O_CREATE|O_TRUNC\<close>: the file is emptied.\<close>

definition os_Create :: "fsys \<Rightarrow> string \<Rightarrow> (fsys \<times> os_File) option" where
  "os_Create fs name =
     (if can_write fs name
      then Some (fs\<lparr>files := (files fs)(name \<mapsto> [])\<rparr>, \<lparr>fname = name, offset = 0\<rparr>)
      else None)"

text \<open>
  \<^verbatim>\<open>os.OpenFile(rules, os.O_CREATE|os.O_WRONLY, 0644)\<close>: the file is created empty
  when absent; an existing file keeps its bytes, since \<^verbatim>\<open>O_TRUNC\<close> is not among the
  flags. The offset starts at 0.
\<close>

definition os_OpenFile_CREATE_WRONLY :: "fsys \<Rightarrow> string \<Rightarrow> (fsys \<times> os_File) option" where
  "os_OpenFile_CREATE_WRONLY fs name =
     (if can_write fs name
      then Some ((case files fs name of
                    None \<Rightarrow> fs\<lparr>files := (files fs)(name \<mapsto> [])\<rparr>
                  | Some bytes \<Rightarrow> fs),
                 \<lparr>fname = name, offset = 0\<rparr>)
      else None)"

text \<open>
  Writing \<open>b\<close> at the file's offset overwrites the bytes there, extends the file where
  \<open>b\<close> reaches past its end, and advances the offset. (A gap before the offset would be
  zero-filled.)
\<close>

definition file_Write :: "fsys \<times> os_File \<Rightarrow> string \<Rightarrow> fsys \<times> os_File" where
  "file_Write st b =
     (let fs = fst st; f = snd st in
      case files fs (fname f) of
        None \<Rightarrow> (fs, f)
      | Some bytes \<Rightarrow>
          (fs\<lparr>files := (files fs)(fname f \<mapsto>
               take (offset f) bytes @ replicate (offset f - length bytes) (CHR 0x00) @ b
                 @ drop (offset f + length b) bytes)\<rparr>,
           f\<lparr>offset := offset f + length b\<rparr>))"

text \<open>
  \<^verbatim>\<open>bufio.Scanner\<close> with its default split function \<^verbatim>\<open>ScanLines\<close>: each token is
  a line without its newline and without one trailing carriage return; a last line with
  no newline is a token when it is not empty; scanning stops, with no further token, at a
  line that does not fit the buffer of \<^verbatim>\<open>MaxScanTokenSize\<close> bytes. \<open>tok\<close> holds
  the bytes of the line read so far.
\<close>

definition MaxScanTokenSize :: nat where
  "MaxScanTokenSize = 64 * 1024"

definition dropCR :: "string \<Rightarrow> string" where
  "dropCR data = (if data \<noteq> [] \<and> last data = CHR 0x0D then butlast data else data)"

fun ScanLines :: "string \<Rightarrow> string \<Rightarrow> string list" where
  "ScanLines tok [] = (if tok = [] then [] else [dropCR tok])"
| "ScanLines tok (c # cs) =
     (if c = CHR 0x0A then dropCR tok # ScanLines [] cs
      else if MaxScanTokenSize \<le> length tok + 1 then []
      else ScanLines (tok @ [c]) cs)"

text \<open>
  The lines of a file as its bytes have them, for stating what stays byte-identical: the
  bytes between one newline and the next, without the newline and with nothing else
  removed; bytes after the last newline are a line when there are any. \<open>cur\<close> holds
  the bytes of the line read so far.
\<close>

fun file_lines_from :: "string \<Rightarrow> string \<Rightarrow> string list" where
  "file_lines_from cur [] = (if cur = [] then [] else [cur])"
| "file_lines_from cur (c # cs) =
     (if c = CHR 0x0A then cur # file_lines_from [] cs
      else file_lines_from (cur @ [c]) cs)"

definition file_lines :: "string \<Rightarrow> string list" where
  "file_lines dat = file_lines_from [] dat"

text \<open>
  A line that the scanner hands on as it is: it fits the scanner's buffer and does not end
  in a carriage return.
\<close>

definition plain_line :: "string \<Rightarrow> bool" where
  "plain_line l = (length l < MaxScanTokenSize \<and> (l = [] \<or> last l \<noteq> CHR 0x0D))"

section \<open>The firewall renderer: \<^verbatim>\<open>buildUFW\<close>\<close>

definition fixedRules :: "string list" where
  "fixedRules =
     ['''',
      ''### tuple ### allow any 22 0.0.0.0/0 any 0.0.0.0/0 in'',
      ''-A ufw-user-input -p tcp --dport 22 -j ACCEPT'',
      ''-A ufw-user-input -p udp --dport 22 -j ACCEPT'',
      '''']"

text \<open>
  The scanning loop of \<^verbatim>\<open>buildUFW\<close>, one step per line \<open>t\<close> of the existing
  rules file, in the order of the four \<^verbatim>\<open>if\<close> statements of the loop body.
\<close>

fun scan_rules ::
  "string list \<Rightarrow> bool \<Rightarrow> bool \<Rightarrow> string list \<Rightarrow> string list \<Rightarrow> string list \<times> string list" where
  "scan_rules [] blnStart blnEnd startConfig endConfig = (startConfig, endConfig)"
| "scan_rules (t # ts) blnStart blnEnd startConfig endConfig =
     (let startConfig1 = (if \<not> blnStart then startConfig @ [t] else startConfig);
          blnStart1 = (if t = ''### RULES ###'' then True else blnStart);
          blnEnd1 = (if t = ''### END RULES ###'' then True else blnEnd);
          endConfig1 = (if blnEnd1 then endConfig @ [t] else endConfig)
      in scan_rules ts blnStart1 blnEnd1 startConfig1 endConfig1)"

text \<open>The three lines appended for one address \<open>n\<close> by the rule loop.\<close>

definition ufw_rule :: "(ip \<Rightarrow> string) \<Rightarrow> ip \<Rightarrow> string list" where
  "ufw_rule str n =
     [''### tuple ### allow tcp 27017 0.0.0.0/0 any '' @ IP_String str n @ '' in'',
      ''-A ufw-user-input -p tcp --dport 27017 -s '' @ IP_String str n @ '' -j ACCEPT'',
      '''']"

definition buildUFW :: "(ip \<Rightarrow> string) \<Rightarrow> ip list \<Rightarrow> string \<Rightarrow> fsys \<Rightarrow> string list" where
  "buildUFW str ipList rules fs =
     (case os_Open fs rules of
        None \<Rightarrow> []
      | Some dat \<Rightarrow>
          (let scanned = scan_rules (ScanLines [] dat) False False [] [];
               startConfig = fst scanned;
               endConfig = snd scanned;
               newConfig = foldl (\<lambda>newConfig n. newConfig @ ufw_rule str n) ([] @ fixedRules) ipList;
               totalConfig = (([] @ startConfig) @ newConfig) @ endConfig
           in totalConfig))"

section \<open>The load-balancer renderer: \<^verbatim>\<open>buildNginx\<close>\<close>

record upstream =
  upstream :: string
  port :: int

definition upstreams :: "upstream list" where
  "upstreams =
     [\<lparr>upstream = ''diy'', port = 32016\<rparr>,
      \<lparr>upstream = ''dockerui'', port = 32018\<rparr>,
      \<lparr>upstream = ''tryingadventure'', port = 32020\<rparr>,
      \<lparr>upstream = ''devops'', port = 32021\<rparr>,
      \<lparr>upstream = ''monitor'', port = 32699\<rparr>]"

definition buildNginx :: "(ip \<Rightarrow> string) \<Rightarrow> ip list \<Rightarrow> string list" where
  "buildNginx str ipList =
     foldl (\<lambda>totalConfig k.
              foldl (\<lambda>totalConfig i.
                       totalConfig @ [''server '' @ IP_String str i @ '':'' @ fmt_d (port k) @ '' weight=100;''])
                    (totalConfig @ [''upstream '' @ upstream k @ '' {''])
                    ipList
              @ [''}''])
           [] upstreams"

section \<open>The writers\<close>

text \<open>
  \<^verbatim>\<open>writeNginx\<close>: \<^verbatim>\<open>os.Create\<close>, then one \<^verbatim>\<open>fmt.Fprintln\<close> per line. When the
  file cannot be created the error is only logged, every \<^verbatim>\<open>Fprintln\<close> on the nil file
  fails, and nothing is written. The function returns nothing to its caller.
\<close>

definition writeNginx :: "string list \<Rightarrow> string \<Rightarrow> fsys \<Rightarrow> fsys" where
  "writeNginx ngixConfig config fs =
     (case os_Create fs config of
        None \<Rightarrow> fs
      | Some opened \<Rightarrow>
          fst (foldl (\<lambda>st data. file_Write st (data @ [CHR 0x0A])) opened ngixConfig))"

text \<open>
  \<^verbatim>\<open>writeUFW\<close>: \<^verbatim>\<open>os.OpenFile\<close> with \<^verbatim>\<open>O_CREATE|O_WRONLY\<close>, then every line
  and its newline go through a \<^verbatim>\<open>bufio.Writer\<close>, which hands the bytes to the file in
  order; \<open>datawriter\<close> is all it was given up to the final \<^verbatim>\<open>Flush\<close>. When the file
  cannot be opened the error is only logged and nothing is written. The function returns
  nothing to its caller.
\<close>

definition writeUFW :: "string list \<Rightarrow> string \<Rightarrow> fsys \<Rightarrow> fsys" where
  "writeUFW ufwConfig rules fs =
     (let datawriter = foldl (\<lambda>buf data. buf @ (data @ [CHR 0x0A])) [] ufwConfig in
      case os_OpenFile_CREATE_WRONLY fs rules of
        None \<Rightarrow> fs
      | Some opened \<Rightarrow> fst (file_Write opened datawriter))"

section \<open>The address source: \<^verbatim>\<open>getKubeNodes\<close>\<close>

text \<open>
  A node of the cluster carries annotations. The answers of the cluster client to the
  three calls of \<^verbatim>\<open>getKubeNodes\<close> are the environment of one fetch: the error of
  \<^verbatim>\<open>BuildConfigFromFlags\<close> and of \<^verbatim>\<open>NewForConfig\<close> if any, and the error or the
  items of \<^verbatim>\<open>Nodes().List\<close>.
\<close>

record node =
  Annotations :: "string \<rightharpoonup> string"

record cluster =
  BuildConfigFromFlags :: "string option"
  NewForConfig :: "string option"
  Nodes_List :: "string + node list"

text \<open>A Go call either panics with a message or returns.\<close>

datatype 'a outcome = Panic string | Return 'a

text \<open>\<^verbatim>\<open>strings.Split(strIP, "/")[0]\<close>: the text before the first slash.\<close>

definition Split_first :: "string \<Rightarrow> string" where
  "Split_first strIP = takeWhile (\<lambda>c. c \<noteq> CHR ''/'') strIP"

text \<open>
  The loop over \<^verbatim>\<open>nodes.Items\<close>. \<open>parse\<close> is \<^verbatim>\<open>net.ParseIP\<close> of the standard
  library, which returns the nil address (length 0) for a text that is not an IP address.
\<close>

definition node_loop :: "(string \<Rightarrow> ip) \<Rightarrow> node list \<Rightarrow> ip list" where
  "node_loop parse items =
     foldl (\<lambda>results val.
              case Annotations val ''projectcalico.org/IPv4Address'' of
                None \<Rightarrow> results
              | Some strIP \<Rightarrow> results @ [parse (Split_first strIP)])
           [] items"

text \<open>The firewall variant panics on each of the three errors.\<close>

definition getKubeNodes_ufw :: "(string \<Rightarrow> ip) \<Rightarrow> cluster \<Rightarrow> (ip list \<times> string option) outcome" where
  "getKubeNodes_ufw parse env =
     (case BuildConfigFromFlags env of
        Some err \<Rightarrow> Panic err
      | None \<Rightarrow>
          (case NewForConfig env of
             Some err \<Rightarrow> Panic err
           | None \<Rightarrow>
               (case Nodes_List env of
                  Inl err \<Rightarrow> Panic err
                | Inr items \<Rightarrow> Return (node_loop parse items, None))))"

text \<open>The load-balancer variant returns each of the three errors with the empty list.\<close>

definition getKubeNodes :: "(string \<Rightarrow> ip) \<Rightarrow> cluster \<Rightarrow> ip list \<times> string option" where
  "getKubeNodes parse env =
     (case BuildConfigFromFlags env of
        Some err \<Rightarrow> ([], Some err)
      | None \<Rightarrow>
          (case NewForConfig env of
             Some err \<Rightarrow> ([], Some err)
           | None \<Rightarrow>
               (case Nodes_List env of
                  Inl err \<Rightarrow> ([], Some err)
                | Inr items \<Rightarrow> (node_loop parse items, None))))"

section \<open>The reconciliation loops\<close>

text \<open>
  The state of the loop in \<^verbatim>\<open>main\<close>: the previous snapshot, the file system, and the
  trace of the calls made so far that act on the outside: a render, a call of the writer
  on a path, the external command started by the reload function, a sleep of five seconds.
\<close>

datatype event = Render | WriteFile string | Exec string "string list" | Sleep

record loop_state =
  st_oldHosts :: "ip list"
  st_disk :: fsys
  st_trace :: "event list"

text \<open>
  The reload functions start an external command and read its output; they return
  nothing, and a command that cannot be started is only logged.
\<close>

definition UFWReload :: "string \<Rightarrow> event" where
  "UFWReload ufwcmd = Exec ufwcmd [''reload'']"

definition NginxReload :: "string \<Rightarrow> event" where
  "NginxReload systemctlcmd = Exec systemctlcmd [''reload'', ''nginx'']"

text \<open>
  One pass of the \<^verbatim>\<open>for\<close> loop of the firewall variant. The loop calls
  \<^verbatim>\<open>isDiff(newHosts, oldHosts)\<close>: the fresh snapshot is the first argument.
\<close>

definition ufw_iteration ::
  "(ip \<Rightarrow> string) \<Rightarrow> (string \<Rightarrow> ip) \<Rightarrow> string \<Rightarrow> string \<Rightarrow> cluster \<Rightarrow> loop_state \<Rightarrow> loop_state outcome" where
  "ufw_iteration str parse rules ufwcmd env st =
     (case getKubeNodes_ufw parse env of
        Panic msg \<Rightarrow> Panic msg
      | Return fetched \<Rightarrow>
          (let newHosts = fst fetched;
               st1 = (if isDiff str newHosts (st_oldHosts st)
                      then (let ufwConfig = buildUFW str newHosts rules (st_disk st) in
                            st\<lparr>st_disk := writeUFW ufwConfig rules (st_disk st),
                               st_trace := st_trace st @
                                 [Render, WriteFile rules, UFWReload ufwcmd, Sleep]\<rparr>)
                      else st)
           in Return (st1\<lparr>st_oldHosts := newHosts, st_trace := st_trace st1 @ [Sleep]\<rparr>)))"

text \<open>
  One pass of the loop of the load-balancer variant. On a fetch error the pass ends at
  \<^verbatim>\<open>continue\<close>: nothing else runs, not even the sleep at the end of the body.
\<close>

definition nginx_iteration ::
  "(ip \<Rightarrow> string) \<Rightarrow> (string \<Rightarrow> ip) \<Rightarrow> string \<Rightarrow> string \<Rightarrow> cluster \<Rightarrow> loop_state \<Rightarrow> loop_state" where
  "nginx_iteration str parse nginxconfig systemctl env st =
     (let fetched = getKubeNodes parse env; newHosts = fst fetched in
      case snd fetched of
        Some err \<Rightarrow> st
      | None \<Rightarrow>
          (let st1 = (if isDiff str newHosts (st_oldHosts st)
                      then (let configs = buildNginx str newHosts in
                            st\<lparr>st_disk := writeNginx configs nginxconfig (st_disk st),
                               st_trace := st_trace st @
                                 [Render, WriteFile nginxconfig, Sleep, NginxReload systemctl]\<rparr>)
                      else st)
           in st1\<lparr>st_oldHosts := newHosts, st_trace := st_trace st1 @ [Sleep]\<rparr>))"

text \<open>
  The loops never end by themselves. Their run over the first passes is the fold of one
  pass over the answers of the cluster, one per pass; a panic ends the process.
\<close>

fun ufw_loop ::
  "(ip \<Rightarrow> string) \<Rightarrow> (string \<Rightarrow> ip) \<Rightarrow> string \<Rightarrow> string \<Rightarrow> cluster list \<Rightarrow> loop_state \<Rightarrow> loop_state outcome" where
  "ufw_loop str parse rules ufwcmd [] st = Return st"
| "ufw_loop str parse rules ufwcmd (env # envs) st =
     (case ufw_iteration str parse rules ufwcmd env st of
        Panic msg \<Rightarrow> Panic msg
      | Return st1 \<Rightarrow> ufw_loop str parse rules ufwcmd envs st1)"

fun nginx_loop ::
  "(ip \<Rightarrow> string) \<Rightarrow> (string \<Rightarrow> ip) \<Rightarrow> string \<Rightarrow> string \<Rightarrow> cluster list \<Rightarrow> loop_state \<Rightarrow> loop_state" where
  "nginx_loop str parse nginxconfig systemctl [] st = st"
| "nginx_loop str parse nginxconfig systemctl (env # envs) st =
     nginx_loop str parse nginxconfig systemctl envs
       (nginx_iteration str parse nginxconfig systemctl env st)"

text \<open>Both loops start with no previous snapshot and an empty trace.\<close>

definition initial_state :: "fsys \<Rightarrow> loop_state" where
  "initial_state fs = \<lparr>st_oldHosts = [], st_disk = fs, st_trace = []\<rparr>"

section \<open>Concrete inputs\<close>

text \<open>
  Inputs at which the theorems below are evaluated. \<open>parse_ex\<close> agrees with
  \<^verbatim>\<open>net.ParseIP\<close> on the texts used here: two IPv4 addresses, and nil for a text that
  is no address.
\<close>

definition parse_ex :: "string \<Rightarrow> ip" where
  "parse_ex s =
     (if s = ''10.0.0.5'' then [10, 0, 0, 5]
      else if s = ''10.0.0.6'' then [10, 0, 0, 6]
      else [])"

definition ex_items :: "node list" where
  "ex_items =
     [\<lparr>Annotations = [''projectcalico.org/IPv4Address'' \<mapsto> ''10.0.0.5/24'']\<rparr>,
      \<lparr>Annotations = Map.empty\<rparr>,
      \<lparr>Annotations = [''projectcalico.org/IPv4Address'' \<mapsto> ''not-an-address'']\<rparr>]"

definition ex_cluster :: cluster where
  "ex_cluster = \<lparr>BuildConfigFromFlags = None, NewForConfig = None, Nodes_List = Inr ex_items\<rparr>"

definition failing_cluster :: cluster where
  "failing_cluster =
     \<lparr>BuildConfigFromFlags = None, NewForConfig = None, Nodes_List = Inl ''connection refused''\<rparr>"

definition ex_rules :: string where
  "ex_rules = ''*filter\<newline>### RULES ###\<newline>old\<newline>### END RULES ###\<newline>COMMIT\<newline>''"

text \<open>A rules file that can be read but not written, as for a process without root rights.\<close>

definition readonly_fs :: fsys where
  "readonly_fs =
     \<lparr>files = [''/etc/ufw/user.rules'' \<mapsto> ex_rules],
      can_read = (\<lambda>p. True), can_write = (\<lambda>p. False)\<rparr>"

definition empty_fs :: fsys where
  "empty_fs = \<lparr>files = Map.empty, can_read = (\<lambda>p. True), can_write = (\<lambda>p. True)\<rparr>"

text \<open>A writable file that is longer than what is written next.\<close>

definition stale_fs :: fsys where
  "stale_fs =
     \<lparr>files = [''/etc/ufw/user.rules'' \<mapsto> ''aaaa\<newline>bbbb\<newline>''],
      can_read = (\<lambda>p. True), can_write = (\<lambda>p. True)\<rparr>"

text \<open>A rules file whose first line ends in carriage return and newline.\<close>

definition crlf_rules :: string where
  "crlf_rules =
     ''keep'' @ [CHR 0x0D] @ ''\<newline>### RULES ###\<newline>### END RULES ###\<newline>''"

definition crlf_fs :: fsys where
  "crlf_fs =
     \<lparr>files = [''/etc/ufw/user.rules'' \<mapsto> crlf_rules],
      can_read = (\<lambda>p. True), can_write = (\<lambda>p. True)\<rparr>"

text \<open>A rules file with a line of 65536 bytes after the end marker.\<close>

definition long_rules :: string where
  "long_rules =
     ''### RULES ###\<newline>### END RULES ###\<newline>''
       @ replicate MaxScanTokenSize (CHR ''x'') @ ''\<newline>tail\<newline>''"

definition long_fs :: fsys where
  "long_fs =
     \<lparr>files = [''/etc/ufw/user.rules'' \<mapsto> long_rules],
      can_read = (\<lambda>p. True), can_write = (\<lambda>p. True)\<rparr>"

section \<open>Properties of the differ\<close>

lemma isDiff_inner_eq:
  "isDiff_inner str v ks m =
     (if IP_String str v \<in> IP_String str ` set ks then m + 1 else m)"
  by (induction ks) auto

lemma isDiff_outer_eq:
  "isDiff_outer str vs ks m =
     m + length (filter (\<lambda>v. IP_String str v \<in> IP_String str ` set ks) vs)"
  by (induction vs arbitrary: m) (simp_all add: isDiff_inner_eq)

lemma filter_all_length:
  "(length (filter P xs) = length xs) = (\<forall>x \<in> set xs. P x)"
proof (induction xs)
  case Nil
  show ?case by simp
next
  case (Cons x xs)
  have "length (filter P xs) \<noteq> Suc (length xs)"
    using length_filter_le [of P xs] by arith
  with Cons show ?case by auto
qed

text \<open>
  In terms of its own parameters: \<^verbatim>\<open>isDiff(a, b)\<close> is true exactly when the lengths
  differ or the text form of some member of the first list \<open>a\<close> does not occur among
  the text forms of the second list \<open>b\<close>.
\<close>

lemma isDiff_iff:
  "isDiff str a b =
     (length a \<noteq> length b \<or> \<not> IP_String str ` set a \<subseteq> IP_String str ` set b)"
proof (cases "length b = length a")
  case False
  then show ?thesis by (auto simp: isDiff_def)
next
  case True
  have "(isDiff_outer str a b 0 = length b) =
          (\<forall>v \<in> set a. IP_String str v \<in> IP_String str ` set b)"
    using True by (simp add: isDiff_outer_eq filter_all_length)
  with True show ?thesis by (auto simp: isDiff_def)
qed

text \<open>
  C1. The loop of \<^verbatim>\<open>main\<close> evaluates the change test as
  \<^verbatim>\<open>isDiff(newHosts, oldHosts)\<close> in both programs: the current snapshot is the first
  argument and the previous one the second. So evaluated, the test is true if and only if
  the two lists differ in length, or some member of the current list has no member of the
  previous list with the same text form.
\<close>

theorem isDiff_current_previous:
  "isDiff str current previous =
     (length previous \<noteq> length current \<or>
      (\<exists>k \<in> set current. \<forall>v \<in> set previous. IP_String str k \<noteq> IP_String str v))"
  unfolding isDiff_iff by auto

theorem isDiff_current_previous_witness:
  "isDiff dotted [[10, 0, 0, 5]] [] = True
   \<and> isDiff dotted [] [] = False
   \<and> isDiff dotted [[10, 0, 0, 5], [10, 0, 0, 5]] [[10, 0, 0, 5], [10, 0, 0, 6]] = False
   \<and> isDiff dotted [[10, 0, 0, 6], [10, 0, 0, 5]] [[10, 0, 0, 5], [10, 0, 0, 7]] = True"
  using isDiff_current_previous [of dotted "[[10, 0, 0, 5]]" "[]"]
    isDiff_current_previous [of dotted "[]" "[]"]
    isDiff_current_previous [of dotted "[[10, 0, 0, 5], [10, 0, 0, 5]]" "[[10, 0, 0, 5], [10, 0, 0, 6]]"]
    isDiff_current_previous [of dotted "[[10, 0, 0, 6], [10, 0, 0, 5]]" "[[10, 0, 0, 5], [10, 0, 0, 7]]"]
  by (simp add: IP_String_def digit_def)

text \<open>
  C6, as amended. For address lists \<open>A\<close> and \<open>B\<close> that each hold no two addresses
  with the same text form, \<^verbatim>\<open>isDiff(A, B)\<close> equals \<^verbatim>\<open>isDiff(B, A)\<close>.
\<close>

theorem isDiff_sym_distinct:
  assumes "distinct (map (IP_String str) A)" and "distinct (map (IP_String str) B)"
  shows "isDiff str A B = isDiff str B A"
proof -
  have sub: "IP_String str ` set ys \<subseteq> IP_String str ` set xs"
    if d: "distinct (map (IP_String str) xs)" and len: "length xs = length ys"
      and le: "IP_String str ` set xs \<subseteq> IP_String str ` set ys" for xs ys
  proof -
    have "card (IP_String str ` set ys) \<le> length ys"
      using card_length [of "map (IP_String str) ys"] by simp
    moreover have "card (IP_String str ` set xs) = length xs"
      using distinct_card [OF d] by simp
    ultimately have "card (IP_String str ` set ys) \<le> card (IP_String str ` set xs)"
      using len by simp
    then have "IP_String str ` set xs = IP_String str ` set ys"
      using le by (intro card_seteq) auto
    then show ?thesis by simp
  qed
  show ?thesis
    unfolding isDiff_iff using sub [OF assms(1), of B] sub [OF assms(2), of A] by auto
qed

theorem isDiff_sym_distinct_witness:
  "isDiff dotted [[10, 0, 0, 5], [10, 0, 0, 6]] [[10, 0, 0, 6], [10, 0, 0, 5]]
     = isDiff dotted [[10, 0, 0, 6], [10, 0, 0, 5]] [[10, 0, 0, 5], [10, 0, 0, 6]]
   \<and> isDiff dotted [[10, 0, 0, 6], [10, 0, 0, 5]] [[10, 0, 0, 5], [10, 0, 0, 6]] = False"
proof -
  have a: "distinct (map (IP_String dotted) [[10, 0, 0, 5], [10, 0, 0, 6]])"
    by (simp add: IP_String_def digit_def)
  have b: "distinct (map (IP_String dotted) [[10, 0, 0, 6], [10, 0, 0, 5]])"
    by (simp add: IP_String_def digit_def)
  show ?thesis
    using isDiff_sym_distinct [OF a b] by (simp add: isDiff_def IP_String_def digit_def)
qed

text \<open>
  C6 as stated fails on a list with a duplicate: every member of
  \<open>[10.0.0.5, 10.0.0.5]\<close> occurs in \<open>[10.0.0.5, 10.0.0.6]\<close>, so the call in this order
  returns false, while in the other order \<open>10.0.0.6\<close> finds no match and the call
  returns true.
\<close>

theorem isDiff_not_symmetric:
  "isDiff dotted [[10, 0, 0, 5], [10, 0, 0, 5]] [[10, 0, 0, 5], [10, 0, 0, 6]] = False
   \<and> isDiff dotted [[10, 0, 0, 5], [10, 0, 0, 6]] [[10, 0, 0, 5], [10, 0, 0, 5]] = True"
  by (simp add: isDiff_def IP_String_def digit_def)

text \<open>
  C8. For every address list \<open>A\<close>, with or without duplicates and also when empty,
  \<^verbatim>\<open>isDiff(A, A)\<close> is false: comparing a snapshot with itself reports no change.
\<close>

theorem isDiff_refl: "isDiff str A A = False"
  by (simp add: isDiff_iff)

theorem isDiff_refl_witness:
  "isDiff dotted [] [] = False
   \<and> isDiff dotted [[10, 0, 0, 1], [10, 0, 0, 1], []] [[10, 0, 0, 1], [10, 0, 0, 1], []] = False"
  using isDiff_refl [of dotted "[]"] isDiff_refl [of dotted "[[10, 0, 0, 1], [10, 0, 0, 1], []]"]
  by simp

section \<open>Properties of the firewall renderer\<close>

lemma scan_rules_fst:
  "fst (scan_rules ts bs be sc ec) =
     (if bs then sc
      else sc @ takeWhile (\<lambda>t. t \<noteq> ''### RULES ###'') ts
              @ take 1 (dropWhile (\<lambda>t. t \<noteq> ''### RULES ###'') ts))"
  by (induction ts arbitrary: bs be sc ec) (simp_all add: Let_def)

lemma scan_rules_snd:
  "snd (scan_rules ts bs be sc ec) =
     (if be then ec @ ts
      else ec @ dropWhile (\<lambda>t. t \<noteq> ''### END RULES ###'') ts)"
  by (induction ts arbitrary: bs be sc ec) (simp_all add: Let_def)

lemma rule_loop_eq:
  "foldl (\<lambda>newConfig n. newConfig @ ufw_rule str n) acc ipList =
     acc @ concat (map (ufw_rule str) ipList)"
  by (induction ipList arbitrary: acc) simp_all

lemma buildUFW_open:
  assumes "os_Open fs rules = Some dat"
  shows "buildUFW str ipList rules fs =
     fst (scan_rules (ScanLines [] dat) False False [] [])
       @ fixedRules @ concat (map (ufw_rule str) ipList)
       @ snd (scan_rules (ScanLines [] dat) False False [] [])"
  using assms by (simp add: buildUFW_def Let_def rule_loop_eq)

lemma takeWhile_upto: "x \<notin> set xs \<Longrightarrow> takeWhile (\<lambda>t. t \<noteq> x) (xs @ x # ys) = xs"
  by (induction xs) auto

lemma dropWhile_from: "x \<notin> set xs \<Longrightarrow> dropWhile (\<lambda>t. t \<noteq> x) (xs @ x # ys) = x # ys"
  by (induction xs) auto

text \<open>
  On the lines that the scanner yields: when they are \<open>pre\<close>, the start marker,
  \<open>mid\<close>, the end marker, \<open>post\<close>, with neither marker anywhere else, the output
  keeps \<open>pre\<close> with the start marker and the end marker with \<open>post\<close>, and replaces
  \<open>mid\<close> by the fixed rules and the rule lines of the addresses.
\<close>

lemma buildUFW_scanned_regions:
  assumes opened: "os_Open fs rules = Some dat"
    and shape: "ScanLines [] dat = pre @ [''### RULES ###''] @ mid @ [''### END RULES ###''] @ post"
    and one_start: "''### RULES ###'' \<notin> set pre \<union> set mid \<union> set post"
    and one_end: "''### END RULES ###'' \<notin> set pre \<union> set mid \<union> set post"
  shows "buildUFW str ipList rules fs =
     (pre @ [''### RULES ###''])
       @ (fixedRules @ concat (map (ufw_rule str) ipList))
       @ ([''### END RULES ###''] @ post)"
proof -
  let ?ls = "ScanLines [] dat"
  have s1: "?ls = pre @ ''### RULES ###'' # (mid @ [''### END RULES ###''] @ post)"
    unfolding shape by simp
  have s2: "?ls = (pre @ [''### RULES ###''] @ mid) @ ''### END RULES ###'' # post"
    unfolding shape by simp
  have n1: "''### RULES ###'' \<notin> set pre"
    using one_start by simp
  have n2: "''### END RULES ###'' \<notin> set (pre @ [''### RULES ###''] @ mid)"
    using one_end by simp
  have tw: "takeWhile (\<lambda>t. t \<noteq> ''### RULES ###'') ?ls = pre"
    by (subst s1) (rule takeWhile_upto [OF n1])
  have dw: "dropWhile (\<lambda>t. t \<noteq> ''### RULES ###'') ?ls
              = ''### RULES ###'' # (mid @ [''### END RULES ###''] @ post)"
    by (subst s1) (rule dropWhile_from [OF n1])
  have de: "dropWhile (\<lambda>t. t \<noteq> ''### END RULES ###'') ?ls = ''### END RULES ###'' # post"
    by (subst s2) (rule dropWhile_from [OF n2])
  show ?thesis
    unfolding buildUFW_open [OF opened] scan_rules_fst scan_rules_snd tw dw de by simp
qed

text \<open>
  The lines of a file, each followed by a newline, are the bytes of the file when it is
  empty or ends in a newline.
\<close>

lemma file_lines_from_bytes:
  "(cs = [] \<longrightarrow> cur = []) \<Longrightarrow> (cs \<noteq> [] \<longrightarrow> last cs = CHR 0x0A) \<Longrightarrow>
   concat (map (\<lambda>l. l @ [CHR 0x0A]) (file_lines_from cur cs)) = cur @ cs"
proof (induction cs arbitrary: cur)
  case Nil
  then show ?case by simp
next
  case (Cons c cs)
  show ?case
  proof (cases "c = CHR 0x0A")
    case True
    have "concat (map (\<lambda>l. l @ [CHR 0x0A]) (file_lines_from [] cs)) = [] @ cs"
      using Cons.prems by (intro Cons.IH) (auto split: if_splits)
    with True show ?thesis by simp
  next
    case False
    with Cons.prems have ne: "cs \<noteq> []" by auto
    have "concat (map (\<lambda>l. l @ [CHR 0x0A]) (file_lines_from (cur @ [c]) cs)) = (cur @ [c]) @ cs"
      using Cons.prems ne by (intro Cons.IH) auto
    with False show ?thesis by simp
  qed
qed

lemma file_lines_bytes:
  "dat = [] \<or> last dat = CHR 0x0A \<Longrightarrow>
   concat (map (\<lambda>l. l @ [CHR 0x0A]) (file_lines dat)) = dat"
  using file_lines_from_bytes [of dat "[]"] by (auto simp: file_lines_def)

lemma file_lines_from_head:
  "cur \<noteq> [] \<Longrightarrow> \<exists>l rest. file_lines_from cur cs = (cur @ l) # rest"
proof (induction cs arbitrary: cur)
  case Nil
  then show ?case by simp
next
  case (Cons c cs)
  show ?case
  proof (cases "c = CHR 0x0A")
    case True
    then show ?thesis by simp
  next
    case False
    have "\<exists>l rest. file_lines_from (cur @ [c]) cs = ((cur @ [c]) @ l) # rest"
      by (rule Cons.IH) simp
    then obtain l rest where "file_lines_from (cur @ [c]) cs = ((cur @ [c]) @ l) # rest"
      by blast
    with False have "file_lines_from cur (c # cs) = (cur @ (c # l)) # rest" by simp
    then show ?thesis by blast
  qed
qed

lemma dropCR_plain: "plain_line l \<Longrightarrow> dropCR l = l"
  by (auto simp: plain_line_def dropCR_def)

text \<open>On a file of plain lines the scanner yields the lines of the file, byte for byte.\<close>

lemma ScanLines_plain:
  "\<forall>l \<in> set (file_lines_from tok cs). plain_line l \<Longrightarrow>
   ScanLines tok cs = file_lines_from tok cs"
proof (induction cs arbitrary: tok)
  case Nil
  then show ?case by (simp add: dropCR_plain)
next
  case (Cons c cs)
  show ?case
  proof (cases "c = CHR 0x0A")
    case True
    with Cons.prems have t: "plain_line tok"
      and r: "\<forall>l \<in> set (file_lines_from [] cs). plain_line l" by simp_all
    from True Cons.IH [OF r] t show ?thesis by (simp add: dropCR_plain)
  next
    case False
    with Cons.prems have r: "\<forall>l \<in> set (file_lines_from (tok @ [c]) cs). plain_line l"
      by simp
    obtain l rest where h: "file_lines_from (tok @ [c]) cs = ((tok @ [c]) @ l) # rest"
      using file_lines_from_head [of "tok @ [c]" cs] by auto
    with r have "plain_line ((tok @ [c]) @ l)" by simp
    then have "length tok + 1 < MaxScanTokenSize" by (simp add: plain_line_def)
    with False Cons.IH [OF r] show ?thesis by simp
  qed
qed

text \<open>
  C2, as amended. Let the existing rules file be readable, let every line of its bytes
  be shorter than 65536 bytes and not end in a carriage return, and let its lines hold
  the start marker \<^verbatim>\<open>### RULES ###\<close> exactly once and, later, the end marker
  \<^verbatim>\<open>### END RULES ###\<close> exactly once: \<open>pre\<close>, the start marker, \<open>mid\<close>, the end
  marker, \<open>post\<close>. Then for every address list the output of \<^verbatim>\<open>buildUFW\<close> begins
  with the lines of the file up to and including the start marker, ends with the lines
  of the file from the end marker on, both byte for byte, and only \<open>mid\<close> is replaced:
  by the fixed rules and the rule lines of the addresses.
\<close>

theorem buildUFW_preserves_file_regions:
  assumes opened: "os_Open fs rules = Some dat"
    and plain: "\<forall>l \<in> set (file_lines dat). plain_line l"
    and shape: "file_lines dat = pre @ [''### RULES ###''] @ mid @ [''### END RULES ###''] @ post"
    and one_start: "''### RULES ###'' \<notin> set pre \<union> set mid \<union> set post"
    and one_end: "''### END RULES ###'' \<notin> set pre \<union> set mid \<union> set post"
  shows "buildUFW str ipList rules fs =
     (pre @ [''### RULES ###''])
       @ (fixedRules @ concat (map (ufw_rule str) ipList))
       @ ([''### END RULES ###''] @ post)"
proof -
  have "ScanLines [] dat = file_lines dat"
    using plain unfolding file_lines_def by (rule ScanLines_plain)
  with shape have scanned:
    "ScanLines [] dat = pre @ [''### RULES ###''] @ mid @ [''### END RULES ###''] @ post"
    by simp
  show ?thesis
    by (rule buildUFW_scanned_regions [OF opened scanned one_start one_end])
qed

theorem buildUFW_preserves_file_regions_witness:
  "file_lines ex_rules
     = [''*filter'', ''### RULES ###'', ''old'', ''### END RULES ###'', ''COMMIT'']
   \<and> buildUFW dotted [[10, 0, 0, 5]] ''/etc/ufw/user.rules'' readonly_fs =
     [''*filter'',
      ''### RULES ###'',
      '''',
      ''### tuple ### allow any 22 0.0.0.0/0 any 0.0.0.0/0 in'',
      ''-A ufw-user-input -p tcp --dport 22 -j ACCEPT'',
      ''-A ufw-user-input -p udp --dport 22 -j ACCEPT'',
      '''',
      ''### tuple ### allow tcp 27017 0.0.0.0/0 any 10.0.0.5 in'',
      ''-A ufw-user-input -p tcp --dport 27017 -s 10.0.0.5 -j ACCEPT'',
      '''',
      ''### END RULES ###'',
      ''COMMIT'']"
proof -
  have h1: "os_Open readonly_fs ''/etc/ufw/user.rules'' = Some ex_rules"
    by (simp add: os_Open_def readonly_fs_def)
  have h2: "file_lines ex_rules
      = [''*filter''] @ [''### RULES ###''] @ [''old''] @ [''### END RULES ###''] @ [''COMMIT'']"
    by (simp add: file_lines_def ex_rules_def)
  have h0: "\<forall>l \<in> set (file_lines ex_rules). plain_line l"
    unfolding h2 by (simp add: plain_line_def MaxScanTokenSize_def)
  have h3: "''### RULES ###'' \<notin> set [''*filter''] \<union> set [''old''] \<union> set [''COMMIT'']"
    by simp
  have h4: "''### END RULES ###'' \<notin> set [''*filter''] \<union> set [''old''] \<union> set [''COMMIT'']"
    by simp
  show ?thesis
    using h2 buildUFW_preserves_file_regions [OF h1 h0 h2 h3 h4, of dotted "[[10, 0, 0, 5]]"]
    by (simp add: fixedRules_def ufw_rule_def IP_String_def digit_def)
qed

text \<open>
  C2 as stated fails on a file whose first line ends in carriage return and newline. The
  lines of the file are \<^verbatim>\<open>keep\<close> with its carriage return, the start marker and the
  end marker, each marker once; the output begins with \<^verbatim>\<open>keep\<close> without the carriage
  return, so the lines up to the start marker are not those of the file.
\<close>

theorem buildUFW_strips_carriage_return:
  "os_Open crlf_fs ''/etc/ufw/user.rules'' = Some crlf_rules
   \<and> file_lines crlf_rules
       = [''keep'' @ [CHR 0x0D]] @ [''### RULES ###''] @ [] @ [''### END RULES ###''] @ []
   \<and> ''### RULES ###'' \<notin> set [''keep'' @ [CHR 0x0D]]
   \<and> ''### END RULES ###'' \<notin> set [''keep'' @ [CHR 0x0D]]
   \<and> buildUFW dotted [[10, 0, 0, 5]] ''/etc/ufw/user.rules'' crlf_fs
       = ([''keep''] @ [''### RULES ###''])
           @ (fixedRules @ concat (map (ufw_rule dotted) [[10, 0, 0, 5]]))
           @ ([''### END RULES ###''] @ [])
   \<and> buildUFW dotted [[10, 0, 0, 5]] ''/etc/ufw/user.rules'' crlf_fs
       \<noteq> ([''keep'' @ [CHR 0x0D]] @ [''### RULES ###''])
           @ (fixedRules @ concat (map (ufw_rule dotted) [[10, 0, 0, 5]]))
           @ ([''### END RULES ###''] @ [])"
  by (simp add: buildUFW_def os_Open_def crlf_fs_def crlf_rules_def MaxScanTokenSize_def
      dropCR_def Let_def file_lines_def)

text \<open>
  The other input that the amended statement leaves out: a line of 65536 bytes after the
  end marker. The scanner stops at it, and the output ends at the end marker: the long
  line and the line \<^verbatim>\<open>tail\<close> after it are gone.
\<close>

lemma ScanLines_too_long:
  "c \<noteq> CHR 0x0A \<Longrightarrow> MaxScanTokenSize \<le> length tok + n \<Longrightarrow> length tok < MaxScanTokenSize \<Longrightarrow>
   ScanLines tok (replicate n c @ rest) = []"
proof (induction n arbitrary: tok)
  case 0
  then show ?case by simp
next
  case (Suc n)
  show ?case
  proof (cases "MaxScanTokenSize \<le> length tok + 1")
    case True
    with Suc.prems(1) show ?thesis by simp
  next
    case False
    have "ScanLines (tok @ [c]) (replicate n c @ rest) = []"
      using Suc.prems False by (intro Suc.IH) auto
    with False Suc.prems(1) show ?thesis by simp
  qed
qed

lemma file_lines_from_replicate:
  "c \<noteq> CHR 0x0A \<Longrightarrow>
   file_lines_from cur (replicate n c @ rest) = file_lines_from (cur @ replicate n c) rest"
  by (induction n arbitrary: cur) (simp_all add: replicate_append_same)

lemma long_file_lines:
  "file_lines long_rules =
     [''### RULES ###'', ''### END RULES ###'', replicate MaxScanTokenSize (CHR ''x''), ''tail'']"
  by (simp add: file_lines_def long_rules_def file_lines_from_replicate)

lemma long_scan: "ScanLines [] long_rules = [''### RULES ###'', ''### END RULES ###'']"
proof -
  have "ScanLines [] (replicate MaxScanTokenSize (CHR ''x'') @ ''\<newline>tail\<newline>'') = []"
    by (rule ScanLines_too_long) (simp_all add: MaxScanTokenSize_def)
  then show ?thesis
    by (simp add: long_rules_def dropCR_def MaxScanTokenSize_def)
qed

lemma buildUFW_drops_after_long_line:
  "file_lines long_rules =
     [''### RULES ###'', ''### END RULES ###'', replicate MaxScanTokenSize (CHR ''x''), ''tail'']
   \<and> buildUFW dotted [] ''/etc/ufw/user.rules'' long_fs
       = [''### RULES ###''] @ fixedRules @ [''### END RULES ###'']"
  using long_scan
  by (simp add: long_file_lines buildUFW_def os_Open_def long_fs_def Let_def)

text \<open>
  C7, as amended. If the existing rules file cannot be opened, \<^verbatim>\<open>buildUFW\<close> returns
  at once with the empty line list: no prefix, no fixed rules, no rule lines for the
  addresses, no suffix.
\<close>

theorem buildUFW_unreadable:
  "os_Open fs rules = None \<Longrightarrow> buildUFW str ipList rules fs = []"
  by (simp add: buildUFW_def)

theorem buildUFW_unreadable_witness:
  "os_Open empty_fs ''/etc/ufw/user.rules'' = None
   \<and> buildUFW dotted [[10, 0, 0, 5]] ''/etc/ufw/user.rules'' empty_fs = []"
proof -
  have h: "os_Open empty_fs ''/etc/ufw/user.rules'' = None"
    by (simp add: os_Open_def empty_fs_def)
  show ?thesis
    using h buildUFW_unreadable [OF h, of dotted "[[10, 0, 0, 5]]"] by simp
qed

text \<open>
  C7 as stated fails where the rules file does not exist: the output is not the fixed
  rules followed by the rule lines of the address.
\<close>

theorem buildUFW_unreadable_no_rules:
  "os_Open empty_fs ''/etc/ufw/user.rules'' = None
   \<and> buildUFW dotted [[10, 0, 0, 5]] ''/etc/ufw/user.rules'' empty_fs = []
   \<and> buildUFW dotted [[10, 0, 0, 5]] ''/etc/ufw/user.rules'' empty_fs
       \<noteq> fixedRules @ concat (map (ufw_rule dotted) [[10, 0, 0, 5]])"
  by (simp add: buildUFW_def os_Open_def empty_fs_def fixedRules_def)

section \<open>Properties of the load-balancer renderer\<close>

lemma server_loop_eq:
  "foldl (\<lambda>totalConfig i. totalConfig @ [f i]) acc ipList = acc @ map f ipList"
  by (induction ipList arbitrary: acc) simp_all

lemma upstream_loop_acc:
  "foldl (\<lambda>totalConfig k.
            foldl (\<lambda>totalConfig i. totalConfig @ [f k i]) (totalConfig @ [g k]) ipList @ [''}''])
         acc ups =
   acc @ concat (map (\<lambda>k. [g k] @ map (f k) ipList @ [''}'']) ups)"
  by (induction ups arbitrary: acc) (simp_all add: server_loop_eq)

lemma buildNginx_concat:
  "buildNginx str ipList =
     concat (map (\<lambda>k. [''upstream '' @ upstream k @ '' {'']
                       @ map (\<lambda>i. ''server '' @ IP_String str i @ '':'' @ fmt_d (port k) @ '' weight=100;'') ipList
                       @ [''}'']) upstreams)"
  unfolding buildNginx_def by (simp add: upstream_loop_acc)

text \<open>
  C9. For every address list, the output of \<^verbatim>\<open>buildNginx\<close> is, for each of the five
  configured upstream groups in their order, the line \<^verbatim>\<open>upstream <name> {\<close>, then one
  line \<^verbatim>\<open>server <address>:<port> weight=100;\<close> per address of the list, in the order
  of the list and with the port of the group, then the line \<^verbatim>\<open>}\<close>.
\<close>

theorem buildNginx_blocks:
  "buildNginx str ipList =
     concat (map (\<lambda>(name, p).
                    [''upstream '' @ name @ '' {'']
                    @ map (\<lambda>a. ''server '' @ IP_String str a @ '':'' @ p @ '' weight=100;'') ipList
                    @ [''}''])
              [(''diy'', ''32016''), (''dockerui'', ''32018''), (''tryingadventure'', ''32020''),
               (''devops'', ''32021''), (''monitor'', ''32699'')])"
  by (simp add: buildNginx_def upstreams_def server_loop_eq fmt_d_def digit_def)

theorem buildNginx_blocks_witness:
  "buildNginx dotted [[10, 0, 0, 1], [10, 0, 0, 2]] =
     [''upstream diy {'',
      ''server 10.0.0.1:32016 weight=100;'',
      ''server 10.0.0.2:32016 weight=100;'',
      ''}'',
      ''upstream dockerui {'',
      ''server 10.0.0.1:32018 weight=100;'',
      ''server 10.0.0.2:32018 weight=100;'',
      ''}'',
      ''upstream tryingadventure {'',
      ''server 10.0.0.1:32020 weight=100;'',
      ''server 10.0.0.2:32020 weight=100;'',
      ''}'',
      ''upstream devops {'',
      ''server 10.0.0.1:32021 weight=100;'',
      ''server 10.0.0.2:32021 weight=100;'',
      ''}'',
      ''upstream monitor {'',
      ''server 10.0.0.1:32699 weight=100;'',
      ''server 10.0.0.2:32699 weight=100;'',
      ''}'']"
  using buildNginx_blocks [of dotted "[[10, 0, 0, 1], [10, 0, 0, 2]]"]
  by (simp add: IP_String_def digit_def)

section \<open>Properties of the writers\<close>

lemma Fprintln_loop:
  "files fs config = Some bytes \<Longrightarrow> length bytes = off \<Longrightarrow>
   files (fst (foldl (\<lambda>st data. file_Write st (data @ [CHR 0x0A]))
                 (fs, \<lparr>fname = config, offset = off\<rparr>) ls)) config
     = Some (bytes @ concat (map (\<lambda>data. data @ [CHR 0x0A]) ls))"
  by (induction ls arbitrary: fs bytes off) (simp_all add: file_Write_def Let_def)

text \<open>
  \<^verbatim>\<open>writeNginx\<close> on a path it can create leaves exactly the lines, each followed by a
  newline, in order, whatever the file held before.
\<close>

lemma writeNginx_content:
  "can_write fs config \<Longrightarrow>
   files (writeNginx ls config fs) config = Some (concat (map (\<lambda>data. data @ [CHR 0x0A]) ls))"
  using Fprintln_loop [of "fs\<lparr>files := (files fs)(config \<mapsto> [])\<rparr>" config "[]" 0 ls]
  by (simp add: writeNginx_def os_Create_def)

lemma datawriter_eq:
  "foldl (\<lambda>buf data. buf @ (data @ [CHR 0x0A])) acc ls =
     acc @ concat (map (\<lambda>data. data @ [CHR 0x0A]) ls)"
  by (induction ls arbitrary: acc) simp_all

text \<open>
  \<^verbatim>\<open>writeUFW\<close> on a path it can open leaves the lines, each followed by a newline, in
  order, and after them whatever bytes of the previous content lie beyond their length.
\<close>

lemma writeUFW_content:
  "can_write fs rules \<Longrightarrow>
   files (writeUFW ls rules fs) rules =
     Some (concat (map (\<lambda>data. data @ [CHR 0x0A]) ls)
           @ drop (length (concat (map (\<lambda>data. data @ [CHR 0x0A]) ls)))
               (case files fs rules of None \<Rightarrow> [] | Some bytes \<Rightarrow> bytes))"
  by (simp add: writeUFW_def os_OpenFile_CREATE_WRONLY_def file_Write_def Let_def datawriter_eq
      split: option.splits)

lemma writeUFW_denied: "\<not> can_write fs rules \<Longrightarrow> writeUFW ls rules fs = fs"
  by (simp add: writeUFW_def os_OpenFile_CREATE_WRONLY_def)

lemma writeNginx_denied: "\<not> can_write fs config \<Longrightarrow> writeNginx ls config fs = fs"
  by (simp add: writeNginx_def os_Create_def)

text \<open>
  C5. The claim is that the writer leaves exactly the rendered lines in the file, with no
  byte of a longer previous content. On a file holding \<^verbatim>\<open>aaaa\<close> and \<^verbatim>\<open>bbbb\<close>,
  writing the single line \<^verbatim>\<open>x\<close> with \<^verbatim>\<open>writeUFW\<close> leaves the two bytes of the new
  line followed by eight bytes of the old content; \<^verbatim>\<open>writeNginx\<close> on the same file
  leaves the new line alone.
\<close>

theorem writeUFW_keeps_stale_bytes:
  "files (writeUFW [''x''] ''/etc/ufw/user.rules'' stale_fs) ''/etc/ufw/user.rules''
     = Some ''x\<newline>aa\<newline>bbbb\<newline>''
   \<and> files (writeNginx [''x''] ''/etc/ufw/user.rules'' stale_fs) ''/etc/ufw/user.rules''
     = Some ''x\<newline>''"
  by (simp add: writeUFW_def os_OpenFile_CREATE_WRONLY_def file_Write_def Let_def stale_fs_def
      writeNginx_def os_Create_def)

section \<open>Properties of the address source\<close>

lemma node_loop_acc:
  "foldl (\<lambda>results val.
            case Annotations val ''projectcalico.org/IPv4Address'' of
              None \<Rightarrow> results
            | Some strIP \<Rightarrow> results @ [parse (Split_first strIP)]) acc items =
   acc @ concat (map (\<lambda>val. case Annotations val ''projectcalico.org/IPv4Address'' of
                               None \<Rightarrow> []
                             | Some strIP \<Rightarrow> [parse (Split_first strIP)]) items)"
  by (induction items arbitrary: acc) (simp_all split: option.splits)

lemma node_loop_eq:
  "node_loop parse items =
     concat (map (\<lambda>val. case Annotations val ''projectcalico.org/IPv4Address'' of
                           None \<Rightarrow> []
                         | Some strIP \<Rightarrow> [parse (Split_first strIP)]) items)"
  by (simp add: node_loop_def node_loop_acc)

lemma node_loop_length:
  "length (node_loop parse items) =
     length (filter (\<lambda>val. Annotations val ''projectcalico.org/IPv4Address'' \<noteq> None) items)"
  unfolding node_loop_eq by (induction items) (simp_all split: option.splits)

lemma node_loop_member:
  "val \<in> set items \<Longrightarrow> Annotations val ''projectcalico.org/IPv4Address'' = Some strIP \<Longrightarrow>
   parse (Split_first strIP) \<in> set (node_loop parse items)"
  unfolding node_loop_eq by (induction items) (auto split: option.splits)

lemma node_loop_ex: "node_loop parse_ex ex_items = [[10, 0, 0, 5], []]"
  by (simp add: node_loop_def ex_items_def Split_first_def parse_ex_def)

lemma buildNginx_server_line:
  "a \<in> set ipList \<Longrightarrow> k \<in> set upstreams \<Longrightarrow>
   ''server '' @ IP_String str a @ '':'' @ fmt_d (port k) @ '' weight=100;''
     \<in> set (buildNginx str ipList)"
  unfolding buildNginx_concat by auto

lemma buildUFW_rule_lines:
  "os_Open fs rules = Some dat \<Longrightarrow> a \<in> set ipList \<Longrightarrow>
   set (ufw_rule str a) \<subseteq> set (buildUFW str ipList rules fs)"
  unfolding buildUFW_open by auto

text \<open>
  C10. Let the three calls to the cluster succeed, and let a node of the list carry the
  annotation \<^verbatim>\<open>projectcalico.org/IPv4Address\<close> with a value whose part before the first
  slash \<^verbatim>\<open>net.ParseIP\<close> does not accept (it returns nil). Then \<^verbatim>\<open>getKubeNodes\<close>, in
  both programs, does not skip the node: the returned list has one entry per annotated
  node and holds the nil address. Rendered, that entry reads \<^verbatim>\<open><nil>\<close>: in both rule
  lines of \<^verbatim>\<open>buildUFW\<close> (on a readable rules file) and in a server line of every
  upstream group of \<^verbatim>\<open>buildNginx\<close>.
\<close>

theorem unparsed_annotation_kept:
  assumes "BuildConfigFromFlags env = None" and "NewForConfig env = None"
    and "Nodes_List env = Inr items"
    and "val \<in> set items"
    and "Annotations val ''projectcalico.org/IPv4Address'' = Some strIP"
    and "parse (Split_first strIP) = []"
    and "os_Open fs rules = Some dat"
  shows "getKubeNodes parse env = (node_loop parse items, None)
       \<and> getKubeNodes_ufw parse env = Return (node_loop parse items, None)
       \<and> length (node_loop parse items) =
           length (filter (\<lambda>v. Annotations v ''projectcalico.org/IPv4Address'' \<noteq> None) items)
       \<and> [] \<in> set (node_loop parse items)
       \<and> ''### tuple ### allow tcp 27017 0.0.0.0/0 any <nil> in''
           \<in> set (buildUFW str (node_loop parse items) rules fs)
       \<and> ''-A ufw-user-input -p tcp --dport 27017 -s <nil> -j ACCEPT''
           \<in> set (buildUFW str (node_loop parse items) rules fs)
       \<and> (\<forall>k \<in> set upstreams.
             ''server <nil>:'' @ fmt_d (port k) @ '' weight=100;''
               \<in> set (buildNginx str (node_loop parse items)))"
proof -
  have nil_in: "[] \<in> set (node_loop parse items)"
    using node_loop_member [OF assms(4) assms(5), of parse] assms(6) by simp
  have nil_str: "IP_String str [] = ''<nil>''"
    by (simp add: IP_String_def)
  have ufw: "set (ufw_rule str []) \<subseteq> set (buildUFW str (node_loop parse items) rules fs)"
    by (rule buildUFW_rule_lines [OF assms(7) nil_in])
  have nginx: "\<And>k. k \<in> set upstreams \<Longrightarrow>
        ''server <nil>:'' @ fmt_d (port k) @ '' weight=100;''
          \<in> set (buildNginx str (node_loop parse items))"
    using buildNginx_server_line [OF nil_in, of _ str] by (simp add: nil_str)
  have g1: "getKubeNodes parse env = (node_loop parse items, None)"
    using assms(1,2,3) by (simp add: getKubeNodes_def)
  have g2: "getKubeNodes_ufw parse env = Return (node_loop parse items, None)"
    using assms(1,2,3) by (simp add: getKubeNodes_ufw_def)
  show ?thesis
    using g1 g2 nil_in ufw nginx by (simp add: node_loop_length ufw_rule_def nil_str)
qed

theorem unparsed_annotation_kept_witness:
  "getKubeNodes parse_ex ex_cluster = ([[10, 0, 0, 5], []], None)
   \<and> getKubeNodes_ufw parse_ex ex_cluster = Return ([[10, 0, 0, 5], []], None)
   \<and> ''-A ufw-user-input -p tcp --dport 27017 -s <nil> -j ACCEPT''
        \<in> set (buildUFW dotted [[10, 0, 0, 5], []] ''/etc/ufw/user.rules'' readonly_fs)
   \<and> ''server <nil>:32016 weight=100;'' \<in> set (buildNginx dotted [[10, 0, 0, 5], []])"
proof -
  let ?bad = "\<lparr>Annotations = [''projectcalico.org/IPv4Address'' \<mapsto> ''not-an-address'']\<rparr>"
  have h1: "BuildConfigFromFlags ex_cluster = None" by (simp add: ex_cluster_def)
  have h2: "NewForConfig ex_cluster = None" by (simp add: ex_cluster_def)
  have h3: "Nodes_List ex_cluster = Inr ex_items" by (simp add: ex_cluster_def)
  have h4: "?bad \<in> set ex_items" by (simp add: ex_items_def)
  have h5: "Annotations ?bad ''projectcalico.org/IPv4Address'' = Some ''not-an-address''"
    by simp
  have h6: "parse_ex (Split_first ''not-an-address'') = []"
    by (simp add: Split_first_def parse_ex_def)
  have h7: "os_Open readonly_fs ''/etc/ufw/user.rules'' = Some ex_rules"
    by (simp add: os_Open_def readonly_fs_def)
  have k: "\<lparr>upstream = ''diy'', port = 32016\<rparr> \<in> set upstreams"
    by (simp add: upstreams_def)
  have p: "fmt_d 32016 = ''32016''"
    by (simp add: fmt_d_def digit_def)
  show ?thesis
    using unparsed_annotation_kept
      [where parse = parse_ex and str = dotted, OF h1 h2 h3 h4 h5 h6 h7] k
    by (auto simp add: node_loop_ex p)
qed

section \<open>Properties of the reconciliation loops\<close>

lemma isDiff_ex: "isDiff dotted [[10, 0, 0, 5], []] [] = True"
  by (simp add: isDiff_def)

text \<open>
  In the load-balancer variant a fetch error leaves the state of the loop as it was: the
  previous snapshot is kept and the pass renders, writes, reloads and sleeps nothing.
\<close>

lemma nginx_iteration_fetch_error:
  "snd (getKubeNodes parse env) = Some err \<Longrightarrow>
   nginx_iteration str parse nginxconfig systemctl env st = st"
  by (simp add: nginx_iteration_def Let_def)

lemma getKubeNodes_error:
  "Nodes_List env = Inl err \<Longrightarrow> \<exists>e. getKubeNodes parse env = ([], Some e)"
  by (simp add: getKubeNodes_def split: option.splits)

lemma getKubeNodes_ufw_panics:
  "Nodes_List env = Inl err \<Longrightarrow> \<exists>msg. getKubeNodes_ufw parse env = Panic msg"
  by (simp add: getKubeNodes_ufw_def split: option.splits)

text \<open>
  C3, as amended. In every pass in which the fetch succeeds and a change is detected, the
  writer is called and then the reload command is started, exactly once, in both
  programs and whatever the writer did: the writers return nothing to the loop, which
  never learns of a failed write.
\<close>

theorem reload_after_write_attempt:
  assumes "BuildConfigFromFlags env = None" and "NewForConfig env = None"
    and "Nodes_List env = Inr items"
    and "isDiff str (node_loop parse items) (st_oldHosts st)"
  shows "ufw_iteration str parse rules ufwcmd env st =
           Return \<lparr>st_oldHosts = node_loop parse items,
                   st_disk = writeUFW (buildUFW str (node_loop parse items) rules (st_disk st))
                               rules (st_disk st),
                   st_trace = st_trace st @
                     [Render, WriteFile rules, Exec ufwcmd [''reload''], Sleep, Sleep]\<rparr>
       \<and> nginx_iteration str parse nginxconfig systemctl env st =
           \<lparr>st_oldHosts = node_loop parse items,
            st_disk = writeNginx (buildNginx str (node_loop parse items)) nginxconfig (st_disk st),
            st_trace = st_trace st @
              [Render, WriteFile nginxconfig, Sleep, Exec systemctl [''reload'', ''nginx''], Sleep]\<rparr>"
  using assms
  by (simp add: ufw_iteration_def nginx_iteration_def getKubeNodes_def getKubeNodes_ufw_def
      UFWReload_def NginxReload_def Let_def)

theorem reload_after_write_attempt_witness:
  "(case ufw_iteration dotted parse_ex ''/etc/ufw/user.rules'' ''/usr/sbin/ufw'' ex_cluster
           (initial_state empty_fs) of
      Panic msg \<Rightarrow> []
    | Return st1 \<Rightarrow> st_trace st1)
     = [Render, WriteFile ''/etc/ufw/user.rules'', Exec ''/usr/sbin/ufw'' [''reload''],
        Sleep, Sleep]
   \<and> st_trace (nginx_iteration dotted parse_ex ''/etc/nginx/upstreams/upstreams.conf''
               ''/bin/systemctl'' ex_cluster (initial_state empty_fs))
     = [Render, WriteFile ''/etc/nginx/upstreams/upstreams.conf'', Sleep,
        Exec ''/bin/systemctl'' [''reload'', ''nginx''], Sleep]"
proof -
  have h1: "BuildConfigFromFlags ex_cluster = None" by (simp add: ex_cluster_def)
  have h2: "NewForConfig ex_cluster = None" by (simp add: ex_cluster_def)
  have h3: "Nodes_List ex_cluster = Inr ex_items" by (simp add: ex_cluster_def)
  have h4: "isDiff dotted (node_loop parse_ex ex_items) (st_oldHosts (initial_state empty_fs))"
    by (simp add: node_loop_ex isDiff_ex initial_state_def)
  show ?thesis
    using reload_after_write_attempt [OF h1 h2 h3 h4,
        of "''/etc/ufw/user.rules''" "''/usr/sbin/ufw''"
           "''/etc/nginx/upstreams/upstreams.conf''" "''/bin/systemctl''"]
    by (simp add: initial_state_def)
qed

text \<open>
  C3 as stated fails on a file system that refuses the write: neither artifact can be
  opened for writing, the disk is left as it was, and the pass of either program still
  starts the reload command.
\<close>

theorem reload_after_failed_write:
  "os_OpenFile_CREATE_WRONLY readonly_fs ''/etc/ufw/user.rules'' = None
   \<and> os_Create readonly_fs ''/etc/nginx/upstreams/upstreams.conf'' = None
   \<and> ufw_iteration dotted parse_ex ''/etc/ufw/user.rules'' ''/usr/sbin/ufw'' ex_cluster
         (initial_state readonly_fs)
       = Return \<lparr>st_oldHosts = [[10, 0, 0, 5], []], st_disk = readonly_fs,
                 st_trace = [Render, WriteFile ''/etc/ufw/user.rules'',
                             Exec ''/usr/sbin/ufw'' [''reload''], Sleep, Sleep]\<rparr>
   \<and> nginx_iteration dotted parse_ex ''/etc/nginx/upstreams/upstreams.conf'' ''/bin/systemctl''
         ex_cluster (initial_state readonly_fs)
       = \<lparr>st_oldHosts = [[10, 0, 0, 5], []], st_disk = readonly_fs,
          st_trace = [Render, WriteFile ''/etc/nginx/upstreams/upstreams.conf'', Sleep,
                      Exec ''/bin/systemctl'' [''reload'', ''nginx''], Sleep]\<rparr>"
  by (simp add: ufw_iteration_def nginx_iteration_def getKubeNodes_def getKubeNodes_ufw_def
      UFWReload_def NginxReload_def Let_def ex_cluster_def node_loop_ex isDiff_ex
      initial_state_def writeUFW_def writeNginx_def
      os_OpenFile_CREATE_WRONLY_def os_Create_def readonly_fs_def)

text \<open>
  C4. The claim is that a failing node-list query is reported as an error and the loop
  goes on with the previous snapshot. In the firewall variant the query's error makes
  \<^verbatim>\<open>getKubeNodes\<close> panic: the pass does not return, and the loop ends there even when
  the cluster would answer at the next pass.
\<close>

theorem ufw_fetch_failure_panics:
  "getKubeNodes_ufw parse_ex failing_cluster = Panic ''connection refused''
   \<and> ufw_iteration dotted parse_ex ''/etc/ufw/user.rules'' ''/usr/sbin/ufw'' failing_cluster
         (initial_state readonly_fs) = Panic ''connection refused''
   \<and> ufw_loop dotted parse_ex ''/etc/ufw/user.rules'' ''/usr/sbin/ufw''
         [failing_cluster, ex_cluster] (initial_state readonly_fs) = Panic ''connection refused''"
  by (simp add: ufw_iteration_def getKubeNodes_ufw_def failing_cluster_def)

end
